theory Spec2Isabelle
  imports Complex_Main "HOL-Library.Multiset"
begin

section \<open>Values exchanged with the JSON-RPC endpoint\<close>

text \<open>
  A decoded JSON document, as \<open>r.json()\<close> returns it: \<open>None\<close>, a bool, an int, a
  str, a list or a dict (an association list read with \<open>map_of\<close>). JSON numbers with a
  fractional part are not part of the model.
\<close>

datatype json =
    JNull
  | JBool bool
  | JInt int
  | JStr string
  | JList "json list"
  | JDict "(string \<times> json) list"

text \<open>
  The exceptions of the load generator, all subclasses of Python's \<open>Exception\<close>:
  \<open>TransportError\<close> is raised by \<open>self.c.post\<close>, \<open>HTTPStatusError\<close> by
  \<open>r.raise_for_status()\<close>, \<open>DecodeError\<close> by \<open>r.json()\<close>, \<open>RuntimeError\<close> by
  \<open>call\<close> on a JSON-RPC error member; the others come from subscripting, \<open>int\<close> and
  division.
\<close>

datatype error =
    TransportError
  | HTTPStatusError
  | DecodeError
  | RuntimeError json
  | KeyError string
  | ValueError
  | TypeError
  | ZeroDivisionError

text \<open>
  How a coroutine ends in a run without other tasks: it returns, it raises, or it stays
  suspended for ever on a lock or semaphore that nobody releases.
\<close>

datatype 'a result = Returned 'a | Raised error | Blocked

subsection \<open>\<open>hex\<close> and \<open>int(s, 16)\<close>\<close>

definition hex_digit :: "nat \<Rightarrow> char" where
  "hex_digit d = ''0123456789abcdef'' ! (d mod 16)"

fun hex_nat :: "nat \<Rightarrow> string" where
  "hex_nat n = (if n < 16 then [hex_digit n] else hex_nat (n div 16) @ [hex_digit (n mod 16)])"

declare hex_nat.simps [simp del]

text \<open>Python's \<open>hex\<close>: \<open>hex(255) = '0xff'\<close>, \<open>hex(-255) = '-0xff'\<close>.\<close>

definition hex :: "int \<Rightarrow> string" where
  "hex n = (if n < 0 then ''-0x'' @ hex_nat (nat (- n)) else ''0x'' @ hex_nat (nat n))"

definition hex_val :: "char \<Rightarrow> nat option" where
  "hex_val c =
     (let n = (of_char c :: nat)
      in if 48 \<le> n \<and> n \<le> 57 then Some (n - 48)
         else if 97 \<le> n \<and> n \<le> 102 then Some (n - 87)
         else if 65 \<le> n \<and> n \<le> 70 then Some (n - 55)
         else None)"

fun hex_digits_val :: "nat \<Rightarrow> string \<Rightarrow> nat option" where
  "hex_digits_val acc [] = Some acc"
| "hex_digits_val acc (c # cs) =
     (case hex_val c of None \<Rightarrow> None | Some d \<Rightarrow> hex_digits_val (16 * acc + d) cs)"

definition strip_0x :: "string \<Rightarrow> string" where
  "strip_0x s =
     (case s of
        c0 # c1 # rest \<Rightarrow> if c0 = CHR ''0'' \<and> (c1 = CHR ''x'' \<or> c1 = CHR ''X'') then rest else s
      | _ \<Rightarrow> s)"

definition unsigned16 :: "string \<Rightarrow> error + nat" where
  "unsigned16 s =
     (let ds = strip_0x s
      in if ds = [] then Inl ValueError
         else case hex_digits_val 0 ds of None \<Rightarrow> Inl ValueError | Some n \<Rightarrow> Inr n)"

text \<open>
  \<open>int(s, 16)\<close> on a str: an optional sign, an optional \<open>0x\<close> or \<open>0X\<close>, then at
  least one hexadecimal digit of either case; anything else is a \<open>ValueError\<close>. (Python
  also accepts surrounding whitespace and single underscores between digits; a JSON-RPC
  quantity such as \<open>0x1dcd6500\<close> has neither, and the model rejects them.)
\<close>

definition int16 :: "string \<Rightarrow> error + int" where
  "int16 s =
     (case s of
        [] \<Rightarrow> Inl ValueError
      | c # cs \<Rightarrow>
          if c = CHR ''-'' then (case unsigned16 cs of Inl e \<Rightarrow> Inl e | Inr n \<Rightarrow> Inr (- int n))
          else if c = CHR ''+'' then (case unsigned16 cs of Inl e \<Rightarrow> Inl e | Inr n \<Rightarrow> Inr (int n))
          else (case unsigned16 s of Inl e \<Rightarrow> Inl e | Inr n \<Rightarrow> Inr (int n)))"

text \<open>\<open>int(x, 16)\<close> on a decoded value: a \<open>TypeError\<close> unless \<open>x\<close> is a str.\<close>

definition int16_json :: "json \<Rightarrow> error + int" where
  "int16_json x = (case x of JStr s \<Rightarrow> int16 s | _ \<Rightarrow> Inl TypeError)"

text \<open>\<open>int(x)\<close> on a decoded value that is not a str.\<close>

definition int_json :: "json \<Rightarrow> error + int" where
  "int_json x =
     (case x of
        JInt n \<Rightarrow> Inr n
      | JBool b \<Rightarrow> Inr (if b then 1 else 0)
      | _ \<Rightarrow> Inl TypeError)"

text \<open>\<open>d[k]\<close> on a decoded value: only a dict can be subscripted by a str.\<close>

definition subscript :: "json \<Rightarrow> string \<Rightarrow> error + json" where
  "subscript d k =
     (case d of
        JDict kv \<Rightarrow> (case map_of kv k of None \<Rightarrow> Inl (KeyError k) | Some v \<Rightarrow> Inr v)
      | _ \<Rightarrow> Inl TypeError)"

text \<open>\<open>int(d[k], 16)\<close>.\<close>

definition field16 :: "json \<Rightarrow> string \<Rightarrow> error + int" where
  "field16 d k = (case subscript d k of Inl e \<Rightarrow> Inl e | Inr v \<Rightarrow> int16_json v)"

text \<open>
  \<open>int(x)\<close> on a float, with the float read as a real number: truncation towards zero.
\<close>

definition int_of_float :: "real \<Rightarrow> int" where
  "int_of_float x = (if 0 \<le> x then \<lfloor>x\<rfloor> else \<lceil>x\<rceil>)"

definition to_wei_hex :: "real \<Rightarrow> string" where
  "to_wei_hex eth = hex (int_of_float (eth * 10 ^ 18))"


section \<open>The metrics registry and the transport\<close>

text \<open>
  The module's Prometheus metrics. A \<open>Counter\<close> and a \<open>Gauge\<close> hold a float, read
  here as a real number; the labelled counter and the histogram hold one child per
  method. Of the histogram the model keeps the observed values, in order of observation.
\<close>

record registry =
  TX_SENT :: real
  TX_OK :: real
  TX_ERR :: real
  RPC_REQ :: "string \<Rightarrow> real"
  RPC_LAT :: "string \<Rightarrow> real list"
  ACH_TPS :: real
  RPS :: real
  MGAS_S :: real
  FAIL_RT :: real

text \<open>
  The fields of class \<open>Rpc\<close>: \<open>url\<close>, \<open>_id\<close>, \<open>_rpc_counter\<close> and whether
  \<open>_lock\<close> is held.
\<close>

record Rpc =
  self_url :: string
  self_id :: int
  self_rpc_counter :: int
  self_lock :: bool

definition Rpc_init :: "string \<Rightarrow> Rpc" where
  "Rpc_init url = \<lparr>self_url = url, self_id = 0, self_rpc_counter = 0, self_lock = False\<rparr>"

text \<open>The request body \<open>payload\<close> of \<open>call\<close>; \<open>jsonrpc\<close> is always \<open>2.0\<close>.\<close>

record payload =
  p_method :: string
  p_params :: json
  p_id :: int

text \<open>
  What a run does to the world outside the task, in the order it happens: increments,
  observations, gauge writes and HTTP posts (the URL and the body).
\<close>

datatype effect =
    Inc_TX_SENT
  | Inc_TX_OK
  | Inc_TX_ERR
  | Inc_RPC_REQ string
  | Observe_RPC_LAT string real
  | Set_ACH_TPS real
  | Set_FAIL_RT real
  | Set_RPS real
  | Set_MGAS_S real
  | Post string payload

record world =
  rpc :: Rpc
  reg :: registry
  effects :: "effect list"

definition registry_init :: registry where
  "registry_init =
     \<lparr>TX_SENT = 0, TX_OK = 0, TX_ERR = 0, RPC_REQ = (\<lambda>_. 0), RPC_LAT = (\<lambda>_. []),
      ACH_TPS = 0, RPS = 0, MGAS_S = 0, FAIL_RT = 0\<rparr>"

definition world_init :: "string \<Rightarrow> world" where
  "world_init url = \<lparr>rpc = Rpc_init url, reg = registry_init, effects = []\<rparr>"

definition emit :: "effect \<Rightarrow> world \<Rightarrow> world" where
  "emit ev w = w\<lparr>effects := effects w @ [ev]\<rparr>"

definition TX_SENT_inc :: "world \<Rightarrow> world" where
  "TX_SENT_inc w = emit Inc_TX_SENT (w\<lparr>reg := (reg w)\<lparr>TX_SENT := TX_SENT (reg w) + 1\<rparr>\<rparr>)"

definition TX_OK_inc :: "world \<Rightarrow> world" where
  "TX_OK_inc w = emit Inc_TX_OK (w\<lparr>reg := (reg w)\<lparr>TX_OK := TX_OK (reg w) + 1\<rparr>\<rparr>)"

definition TX_ERR_inc :: "world \<Rightarrow> world" where
  "TX_ERR_inc w = emit Inc_TX_ERR (w\<lparr>reg := (reg w)\<lparr>TX_ERR := TX_ERR (reg w) + 1\<rparr>\<rparr>)"

definition RPC_REQ_inc :: "string \<Rightarrow> world \<Rightarrow> world" where
  "RPC_REQ_inc m w =
     emit (Inc_RPC_REQ m) (w\<lparr>reg := (reg w)\<lparr>RPC_REQ := (RPC_REQ (reg w))(m := RPC_REQ (reg w) m + 1)\<rparr>\<rparr>)"

definition RPC_LAT_observe :: "string \<Rightarrow> real \<Rightarrow> world \<Rightarrow> world" where
  "RPC_LAT_observe m x w =
     emit (Observe_RPC_LAT m x)
       (w\<lparr>reg := (reg w)\<lparr>RPC_LAT := (RPC_LAT (reg w))(m := RPC_LAT (reg w) m @ [x])\<rparr>\<rparr>)"

definition ACH_TPS_set :: "real \<Rightarrow> world \<Rightarrow> world" where
  "ACH_TPS_set x w = emit (Set_ACH_TPS x) (w\<lparr>reg := (reg w)\<lparr>ACH_TPS := x\<rparr>\<rparr>)"

definition FAIL_RT_set :: "real \<Rightarrow> world \<Rightarrow> world" where
  "FAIL_RT_set x w = emit (Set_FAIL_RT x) (w\<lparr>reg := (reg w)\<lparr>FAIL_RT := x\<rparr>\<rparr>)"

definition RPS_set :: "real \<Rightarrow> world \<Rightarrow> world" where
  "RPS_set x w = emit (Set_RPS x) (w\<lparr>reg := (reg w)\<lparr>RPS := x\<rparr>\<rparr>)"

definition MGAS_S_set :: "real \<Rightarrow> world \<Rightarrow> world" where
  "MGAS_S_set x w = emit (Set_MGAS_S x) (w\<lparr>reg := (reg w)\<lparr>MGAS_S := x\<rparr>\<rparr>)"

subsection \<open>\<open>Rpc.call\<close>\<close>

text \<open>The statements of \<open>call\<close> and \<open>drain_rpc_counter\<close> that touch the \<open>Rpc\<close> object.\<close>

definition lock_acquire :: "Rpc \<Rightarrow> Rpc" where
  "lock_acquire r = r\<lparr>self_lock := True\<rparr>"

definition lock_release :: "Rpc \<Rightarrow> Rpc" where
  "lock_release r = r\<lparr>self_lock := False\<rparr>"

definition bump_id :: "Rpc \<Rightarrow> Rpc" where
  "bump_id r = r\<lparr>self_id := self_id r + 1\<rparr>"

definition bump_rpc_counter :: "Rpc \<Rightarrow> Rpc" where
  "bump_rpc_counter r = r\<lparr>self_rpc_counter := self_rpc_counter r + 1\<rparr>"

definition drain_rpc_counter :: "Rpc \<Rightarrow> int \<times> Rpc" where
  "drain_rpc_counter r = (let v = self_rpc_counter r in (v, r\<lparr>self_rpc_counter := 0\<rparr>))"

text \<open>
  What the endpoint and the clock give one invocation of \<open>call\<close>: the outcome of
  \<open>self.c.post\<close> (an exception, or a response with its status and its decoded body,
  \<open>None\<close> when the body is not JSON) and the three readings of \<open>time.perf_counter()\<close>.
\<close>

datatype reply = PostRaised | Responded bool "json option"

record call_env =
  reply :: reply
  t_start :: real
  t_resp :: real
  t_exc :: real

text \<open>
  \<open>if "error" in data: raise RuntimeError(data["error"])\<close>, then
  \<open>return data["result"]\<close>. On a body that is not a dict either the membership test or
  the subscript raises a \<open>TypeError\<close>.
\<close>

definition extract_result :: "json \<Rightarrow> error + json" where
  "extract_result data =
     (case data of
        JDict kv \<Rightarrow>
          (case map_of kv ''error'' of
             Some e \<Rightarrow> Inl (RuntimeError e)
           | None \<Rightarrow> (case map_of kv ''result'' of None \<Rightarrow> Inl (KeyError ''result'') | Some v \<Rightarrow> Inr v))
      | _ \<Rightarrow> Inl TypeError)"

text \<open>\<open>r.raise_for_status()\<close>, \<open>data = r.json()\<close> and the extraction above.\<close>

definition after_response :: "bool \<Rightarrow> json option \<Rightarrow> error + json" where
  "after_response ok body =
     (if \<not> ok then Inl HTTPStatusError
      else case body of None \<Rightarrow> Inl DecodeError | Some data \<Rightarrow> extract_result data)"

definition on_rpc :: "(Rpc \<Rightarrow> Rpc) \<Rightarrow> world \<Rightarrow> world" where
  "on_rpc f w = w\<lparr>rpc := f (rpc w)\<rparr>"

definition call :: "string \<Rightarrow> json \<Rightarrow> call_env \<Rightarrow> world \<Rightarrow> json result \<times> world" where
  "call method params e w =
     (if self_lock (rpc w) then (Blocked, w)
      else
        let w1 = on_rpc lock_acquire w;
            w2 = on_rpc bump_id w1;
            rid = self_id (rpc w2);
            w3 = on_rpc lock_release w2;
            body = \<lparr>p_method = method, p_params = params, p_id = rid\<rparr>;
            w4 = RPC_REQ_inc method w3;
            w5 = on_rpc bump_rpc_counter w4;
            w6 = emit (Post (self_url (rpc w5)) body) w5
        in case reply e of
             PostRaised \<Rightarrow> (Raised TransportError, RPC_LAT_observe method (t_exc e - t_start e) w6)
           | Responded ok data \<Rightarrow>
               let w7 = RPC_LAT_observe method (t_resp e - t_start e) w6
               in (case after_response ok data of
                     Inr v \<Rightarrow> (Returned v, w7)
                   | Inl err \<Rightarrow> (Raised err, RPC_LAT_observe method (t_exc e - t_start e) w7)))"


section \<open>The transaction worker\<close>

text \<open>\<open>tip_wei = int(tip, 16) if isinstance(tip, str) else int(tip)\<close>.\<close>

definition tip_to_wei :: "json \<Rightarrow> error + int" where
  "tip_to_wei tip = (case tip of JStr s \<Rightarrow> int16 s | _ \<Rightarrow> int_json tip)"

definition tx_params :: "string \<Rightarrow> string \<Rightarrow> real \<Rightarrow> int \<Rightarrow> json" where
  "tx_params sender to_addr value_eth tip_wei =
     (let priority = max tip_wei 1000000000;
          maxfee = priority * 2
      in JList [JDict
           [(''from'', JStr sender),
            (''to'', JStr to_addr),
            (''value'', JStr (to_wei_hex value_eth)),
            (''gas'', JStr (hex 21000)),
            (''maxPriorityFeePerGas'', JStr (hex priority)),
            (''maxFeePerGas'', JStr (hex maxfee))]])"

text \<open>The body of the \<open>try\<close> of \<open>send_tx\<close>.\<close>

definition send_tx_try ::
  "string \<Rightarrow> string \<Rightarrow> real \<Rightarrow> call_env \<Rightarrow> call_env \<Rightarrow> world \<Rightarrow> unit result \<times> world" where
  "send_tx_try sender to_addr value_eth e1 e2 w =
     (case call ''eth_maxPriorityFeePerGas'' (JList []) e1 w of
        (Blocked, w1) \<Rightarrow> (Blocked, w1)
      | (Raised err, w1) \<Rightarrow> (Raised err, w1)
      | (Returned tip, w1) \<Rightarrow>
          (case tip_to_wei tip of
             Inl err \<Rightarrow> (Raised err, w1)
           | Inr tip_wei \<Rightarrow>
               (case call ''eth_sendTransaction'' (tx_params sender to_addr value_eth tip_wei) e2 w1 of
                  (Blocked, w2) \<Rightarrow> (Blocked, w2)
                | (Raised err, w2) \<Rightarrow> (Raised err, w2)
                | (Returned _, w2) \<Rightarrow> (Returned (), TX_OK_inc w2))))"

text \<open>
  \<open>send_tx\<close>: \<open>TX_SENT.inc()\<close>, the \<open>try\<close>, and the handler that counts the error
  and raises it again. (The handler's \<open>print\<close> is left out.)
\<close>

definition send_tx ::
  "string \<Rightarrow> string \<Rightarrow> real \<Rightarrow> call_env \<Rightarrow> call_env \<Rightarrow> world \<Rightarrow> unit result \<times> world" where
  "send_tx sender to_addr value_eth e1 e2 w =
     (case send_tx_try sender to_addr value_eth e1 e2 (TX_SENT_inc w) of
        (Raised err, w') \<Rightarrow> (Raised err, TX_ERR_inc w')
      | (Returned u, w') \<Rightarrow> (Returned u, w')
      | (Blocked, w') \<Rightarrow> (Blocked, w'))"


section \<open>The pacer\<close>

text \<open>
  The locals of the generator \<open>rate_limiter\<close>. One turn of its loop reads the clock,
  sleeps until \<open>next_t\<close> when that is still ahead, yields, and moves \<open>next_t\<close> on by
  \<open>interval\<close>. A turn is recorded as the deadline it yields for and the time it slept.
  Times are floats, read as real numbers.
\<close>

record pacer =
  interval :: real
  next_t :: real

definition rate_limiter_init :: "real \<Rightarrow> real \<Rightarrow> pacer" where
  "rate_limiter_init tps t0 = \<lparr>interval = (if tps > 0 then 1 / tps else 0), next_t = t0\<rparr>"

definition rate_limiter_turn :: "real \<Rightarrow> pacer \<Rightarrow> (real \<times> real option) \<times> pacer" where
  "rate_limiter_turn now p =
     (let slept = (if now < next_t p then Some (next_t p - now) else None)
      in ((next_t p, slept), p\<lparr>next_t := next_t p + interval p\<rparr>))"

text \<open>The loop, run for as many turns as there are clock readings.\<close>

fun rate_limiter :: "real list \<Rightarrow> pacer \<Rightarrow> (real \<times> real option) list \<times> pacer" where
  "rate_limiter [] p = ([], p)"
| "rate_limiter (now # nows) p =
     (let (y, p1) = rate_limiter_turn now p;
          (ys, p2) = rate_limiter nows p1
      in (y # ys, p2))"

section \<open>The sampler\<close>

record sampler_state =
  last_ok :: real
  last_err :: real
  last_num :: int
  last_mgas :: real

definition latest_params :: json where
  "latest_params = JList [JStr ''latest'', JBool False]"

text \<open>The statements of \<open>sampler\<close> before its loop.\<close>

definition sampler_prime :: "call_env \<Rightarrow> world \<Rightarrow> sampler_state result \<times> world" where
  "sampler_prime e w =
     (let ok = TX_OK (reg w);
          err = TX_ERR (reg w)
      in case call ''eth_getBlockByNumber'' latest_params e w of
           (Blocked, w1) \<Rightarrow> (Blocked, w1)
         | (Raised x, w1) \<Rightarrow> (Raised x, w1)
         | (Returned head, w1) \<Rightarrow>
             (case field16 head ''number'' of
                Inl x \<Rightarrow> (Raised x, w1)
              | Inr n \<Rightarrow> (Returned \<lparr>last_ok = ok, last_err = err, last_num = n, last_mgas = 0\<rparr>, w1)))"

text \<open>
  Steps 1 and 2 of a window, on the world as it is when \<open>asyncio.sleep(window)\<close>
  returns. Python's \<open>/\<close> raises on a zero divisor; the drain has happened by then.
\<close>

definition sampler_rates :: "real \<Rightarrow> sampler_state \<Rightarrow> world \<Rightarrow> sampler_state result \<times> world" where
  "sampler_rates window s w =
     (let ok = TX_OK (reg w);
          err = TX_ERR (reg w);
          okd = ok - last_ok s;
          errd = err - last_err s;
          total = okd + errd;
          w1 = ACH_TPS_set (if window > 0 then okd / window else 0) w;
          w2 = FAIL_RT_set (if total > 0 then errd / total else 0) w1;
          s1 = s\<lparr>last_ok := ok, last_err := err\<rparr>;
          (v, r) = drain_rpc_counter (rpc w2);
          w3 = w2\<lparr>rpc := r\<rparr>
      in if window = 0 then (Raised ZeroDivisionError, w3)
         else (Returned s1, RPS_set (real_of_int v / window) w3))"

text \<open>
  \<open>ts\<close>, \<open>pts\<close>, \<open>dt\<close>, \<open>gas\<close> and the new \<open>last_mgas\<close> of step 3, from the head block
  and its parent.
\<close>

definition block_mgas :: "json \<Rightarrow> json \<Rightarrow> error + real" where
  "block_mgas blk parent =
     (case field16 blk ''timestamp'' of
        Inl x \<Rightarrow> Inl x
      | Inr ts \<Rightarrow>
          (case field16 parent ''timestamp'' of
             Inl x \<Rightarrow> Inl x
           | Inr pts \<Rightarrow>
               (let dt = max (ts - pts) 1
                in case field16 blk ''gasUsed'' of
                     Inl x \<Rightarrow> Inl x
                   | Inr gas \<Rightarrow> Inr ((real_of_int gas / real_of_int dt) / 1000000))))"

text \<open>Step 3 of a window.\<close>

definition sampler_head ::
  "call_env \<Rightarrow> call_env \<Rightarrow> sampler_state \<Rightarrow> world \<Rightarrow> sampler_state result \<times> world" where
  "sampler_head e1 e2 s w =
     (case call ''eth_getBlockByNumber'' latest_params e1 w of
        (Blocked, w1) \<Rightarrow> (Blocked, w1)
      | (Raised x, w1) \<Rightarrow> (Raised x, w1)
      | (Returned blk, w1) \<Rightarrow>
          (case field16 blk ''number'' of
             Inl x \<Rightarrow> (Raised x, w1)
           | Inr num \<Rightarrow>
               if num > last_num s then
                 (case subscript blk ''parentHash'' of
                    Inl x \<Rightarrow> (Raised x, w1)
                  | Inr ph \<Rightarrow>
                      (case call ''eth_getBlockByHash'' (JList [ph, JBool False]) e2 w1 of
                         (Blocked, w2) \<Rightarrow> (Blocked, w2)
                       | (Raised x, w2) \<Rightarrow> (Raised x, w2)
                       | (Returned parent, w2) \<Rightarrow>
                           (case block_mgas blk parent of
                              Inl x \<Rightarrow> (Raised x, w2)
                            | Inr mgas \<Rightarrow>
                                (Returned (s\<lparr>last_mgas := mgas, last_num := num\<rparr>),
                                 MGAS_S_set mgas w2))))
               else (Returned s, MGAS_S_set (last_mgas s) w1)))"

text \<open>One turn of the loop of \<open>sampler\<close>, after the sleep.\<close>

definition sampler_window ::
  "real \<Rightarrow> call_env \<Rightarrow> call_env \<Rightarrow> sampler_state \<Rightarrow> world \<Rightarrow> sampler_state result \<times> world" where
  "sampler_window window e1 e2 s w =
     (case sampler_rates window s w of
        (Returned s1, w1) \<Rightarrow> sampler_head e1 e2 s1 w1
      | (Raised x, w1) \<Rightarrow> (Raised x, w1)
      | (Blocked, w1) \<Rightarrow> (Blocked, w1))"

section \<open>The controller's preset split\<close>


record mix =
  tps :: int
  rps_block :: int
  rps_bal :: int
  rps_call :: int



section \<open>Concurrent callers of the transport\<close>

text \<open>
  Tasks of the event loop that are inside \<open>Rpc.call\<close>, each at one of the statements
  that touch the \<open>Rpc\<close> object: waiting at \<open>async with self._lock\<close>, holding the lock
  before \<open>self._id += 1\<close>, before \<open>rid = self._id\<close>, holding \<open>rid\<close> before the lock
  is released, before \<open>self._rpc_counter += 1\<close>, and past it (the rest of \<open>call\<close>
  leaves the object alone). The event loop switches tasks only where a task awaits; the
  model lets it switch after every one of these statements, inside the lock too.
\<close>

datatype pc =
    At_lock
  | In_lock
  | Bumped
  | Has_rid int
  | Unlocked int
  | Counted int

text \<open>
  The shared object, the tasks, the request ids in the order they were assigned and the
  values \<open>drain_rpc_counter\<close> has returned, in order.
\<close>

record loop_state =
  shared :: Rpc
  tasks :: "pc list"
  assigned :: "int list"
  drained :: "int list"

definition loop_init :: "string \<Rightarrow> nat \<Rightarrow> loop_state" where
  "loop_init url n =
     \<lparr>shared = Rpc_init url, tasks = replicate n At_lock, assigned = [], drained = []\<rparr>"

text \<open>Task \<open>i\<close> runs its next statement; a task waiting for a held lock stays where it is.\<close>

definition task_step :: "nat \<Rightarrow> loop_state \<Rightarrow> loop_state" where
  "task_step i s =
     (if length (tasks s) \<le> i then s
      else case tasks s ! i of
             At_lock \<Rightarrow>
               if self_lock (shared s) then s
               else s\<lparr>shared := lock_acquire (shared s), tasks := (tasks s)[i := In_lock]\<rparr>
           | In_lock \<Rightarrow> s\<lparr>shared := bump_id (shared s), tasks := (tasks s)[i := Bumped]\<rparr>
           | Bumped \<Rightarrow>
               s\<lparr>tasks := (tasks s)[i := Has_rid (self_id (shared s))],
                 assigned := assigned s @ [self_id (shared s)]\<rparr>
           | Has_rid rid \<Rightarrow>
               s\<lparr>shared := lock_release (shared s), tasks := (tasks s)[i := Unlocked rid]\<rparr>
           | Unlocked rid \<Rightarrow>
               s\<lparr>shared := bump_rpc_counter (shared s), tasks := (tasks s)[i := Counted rid]\<rparr>
           | Counted rid \<Rightarrow> s)"

text \<open>The sampler calls \<open>drain_rpc_counter\<close>, a plain method without an \<open>await\<close>.\<close>

definition drain_step :: "loop_state \<Rightarrow> loop_state" where
  "drain_step s =
     (let (v, r) = drain_rpc_counter (shared s)
      in s\<lparr>shared := r, drained := drained s @ [v]\<rparr>)"

datatype turn = Run nat | Drain

fun turn_step :: "turn \<Rightarrow> loop_state \<Rightarrow> loop_state" where
  "turn_step (Run i) s = task_step i s"
| "turn_step Drain s = drain_step s"

text \<open>A schedule is the list of turns the event loop takes.\<close>

fun run_schedule :: "turn list \<Rightarrow> loop_state \<Rightarrow> loop_state" where
  "run_schedule [] s = s"
| "run_schedule (t # ts) s = run_schedule ts (turn_step t s)"

text \<open>The request id a task holds, if it has one yet.\<close>

fun rid_of :: "pc \<Rightarrow> int list" where
  "rid_of (Has_rid rid) = [rid]"
| "rid_of (Unlocked rid) = [rid]"
| "rid_of (Counted rid) = [rid]"
| "rid_of _ = []"

definition held_rids :: "pc list \<Rightarrow> int list" where
  "held_rids ps = concat (map rid_of ps)"

text \<open>Whether a task is inside the lock, is between the two statements there, has been counted.\<close>

fun in_lock :: "pc \<Rightarrow> nat" where
  "in_lock In_lock = 1"
| "in_lock Bumped = 1"
| "in_lock (Has_rid _) = 1"
| "in_lock _ = 0"

fun is_bumped :: "pc \<Rightarrow> nat" where
  "is_bumped Bumped = 1"
| "is_bumped _ = 0"

fun is_counted :: "pc \<Rightarrow> nat" where
  "is_counted (Counted _) = 1"
| "is_counted _ = 0"

definition calls_counted :: "loop_state \<Rightarrow> int" where
  "calls_counted s = int (sum_list (map is_counted (tasks s)))"


text \<open>
  What holds of every state the event loop can reach: the lock is held exactly when one
  task is inside it; \<open>_id\<close> is the number of ids assigned, plus one while a task stands
  between the increment and the read; the ids were assigned in the order 1, 2, 3, ...;
  the tasks hold exactly the ids assigned; every counted call is in \<open>_rpc_counter\<close> or
  in one of the drained values.
\<close>

definition loop_inv :: "loop_state \<Rightarrow> bool" where
  "loop_inv s =
     (sum_list (map in_lock (tasks s)) = (if self_lock (shared s) then 1 else 0)
      \<and> self_id (shared s) = int (length (assigned s)) + int (sum_list (map is_bumped (tasks s)))
      \<and> assigned s = [1..int (length (assigned s))]
      \<and> mset (held_rids (tasks s)) = mset (assigned s)
      \<and> sum_list (drained s) + self_rpc_counter (shared s) = calls_counted s)"

section \<open>Auxiliary definitions for the properties\<close>

text \<open>How \<open>call\<close> ends, as a function of what the endpoint gave it.\<close>

definition outcome :: "reply \<Rightarrow> json result" where
  "outcome rp =
     (case rp of
        PostRaised \<Rightarrow> Raised TransportError
      | Responded ok data \<Rightarrow>
          (case after_response ok data of Inr v \<Rightarrow> Returned v | Inl err \<Rightarrow> Raised err))"

text \<open>
  An endpoint that answers HTTP 200 with a JSON-RPC error object; the clock reads 0 before
  the post, 1 after it and 2 in the exception handler.
\<close>

definition rpc_error_env :: call_env where
  "rpc_error_env =
     \<lparr>reply = Responded True (Some (JDict [(''jsonrpc'', JStr ''2.0''), (''id'', JInt 1),
         (''error'', JDict [(''code'', JInt (- 32601)), (''message'', JStr ''method not found'')])])),
      t_start = 0, t_resp = 1, t_exc = 2\<rparr>"

text \<open>An endpoint that answers HTTP 200 with the result \<open>v\<close>.\<close>

definition result_env :: "json \<Rightarrow> call_env" where
  "result_env v =
     \<lparr>reply = Responded True (Some (JDict [(''jsonrpc'', JStr ''2.0''), (''id'', JInt 1), (''result'', v)])),
      t_start = 0, t_resp = 1, t_exc = 2\<rparr>"

text \<open>A block as \<open>eth_getBlockByNumber\<close> returns it, with the fields the sampler reads.\<close>

definition block_json :: "string \<Rightarrow> string \<Rightarrow> string \<Rightarrow> json" where
  "block_json num ts gas =
     JDict [(''number'', JStr num), (''timestamp'', JStr ts), (''gasUsed'', JStr gas),
            (''parentHash'', JStr ''0xabc'')]"

section \<open>Properties of the controller's split\<close>




section \<open>Properties of the pacer\<close>

lemma rate_limiter_interval: "interval (snd (rate_limiter nows p)) = interval p"
  by (induction nows arbitrary: p) (simp_all add: rate_limiter_turn_def Let_def split_beta)

lemma rate_limiter_next_t:
  "next_t (snd (rate_limiter nows p)) = next_t p + real (length nows) * interval p"
  by (induction nows arbitrary: p)
     (simp_all add: rate_limiter_turn_def Let_def split_beta algebra_simps)

lemma rate_limiter_deadlines:
  "map fst (fst (rate_limiter nows p)) =
     map (\<lambda>k. next_t p + real k * interval p) [0..<length nows]"
proof (induction nows arbitrary: p)
  case Nil
  show ?case by simp
next
  case (Cons now nows)
  have "map fst (fst (rate_limiter (now # nows) p)) =
          next_t p # map fst (fst (rate_limiter nows (p\<lparr>next_t := next_t p + interval p\<rparr>)))"
    by (simp add: rate_limiter_turn_def Let_def split_beta)
  also have "\<dots> = next_t p # map (\<lambda>k. next_t p + interval p + real k * interval p) [0..<length nows]"
    by (simp add: Cons.IH)
  also have "\<dots> = map (\<lambda>k. next_t p + real k * interval p) [0..<length (now # nows)]"
    by (simp add: upt_conv_Cons map_Suc_upt [symmetric] algebra_simps del: upt_Suc)
  finally show ?case .
qed

text \<open>
  C4: for a target rate \<open>r > 0\<close> and a generator started at clock reading \<open>t0\<close>, the
  deadline of turn \<open>k\<close> is \<open>t0 + k (1 / r)\<close> whatever the clock reads at any turn: the
  deadlines of two runs of the same length are the same, however late the turns came.
\<close>

theorem rate_limiter_deadlines_fixed:
  assumes "0 < r"
  shows "map fst (fst (rate_limiter nows (rate_limiter_init r t0))) =
           map (\<lambda>k. t0 + real k * (1 / r)) [0..<length nows]
         \<and> next_t (snd (rate_limiter nows (rate_limiter_init r t0))) =
             t0 + real (length nows) * (1 / r)
         \<and> (length nows' = length nows \<longrightarrow>
              map fst (fst (rate_limiter nows' (rate_limiter_init r t0))) =
              map fst (fst (rate_limiter nows (rate_limiter_init r t0))))"
  using assms
  by (simp add: rate_limiter_deadlines rate_limiter_next_t rate_limiter_init_def)

theorem rate_limiter_deadlines_fixed_witness:
  "(0::real) < 4 \<and> length [0, 9, 9.1 :: real] = length [0, 0.25, 0.5 :: real]
   \<and> map fst (fst (rate_limiter [0, 9, 9.1] (rate_limiter_init 4 0))) = [0, 0.25, 0.5]
   \<and> map fst (fst (rate_limiter [0, 0.25, 0.5] (rate_limiter_init 4 0))) = [0, 0.25, 0.5]
   \<and> next_t (snd (rate_limiter [0, 9, 9.1] (rate_limiter_init 4 0))) = 0.75"
  using rate_limiter_deadlines_fixed [of 4 "[0, 9, 9.1]" 0 "[0, 0.25, 0.5]"]
  by (simp add: upt_conv_Cons)


section \<open>Properties of the transport\<close>

lemmas world_ops =
  emit_def TX_SENT_inc_def TX_OK_inc_def TX_ERR_inc_def RPC_REQ_inc_def RPC_LAT_observe_def
  ACH_TPS_set_def FAIL_RT_set_def RPS_set_def MGAS_S_set_def
  on_rpc_def lock_acquire_def lock_release_def bump_id_def bump_rpc_counter_def

lemma call_blocked: "self_lock (rpc w) \<Longrightarrow> call m p e w = (Blocked, w)"
  by (simp add: call_def)

lemma call_frame:
  "call m p e w = (r, w') \<Longrightarrow>
     TX_SENT (reg w') = TX_SENT (reg w) \<and> TX_OK (reg w') = TX_OK (reg w)
     \<and> TX_ERR (reg w') = TX_ERR (reg w) \<and> ACH_TPS (reg w') = ACH_TPS (reg w)
     \<and> FAIL_RT (reg w') = FAIL_RT (reg w) \<and> RPS (reg w') = RPS (reg w)
     \<and> MGAS_S (reg w') = MGAS_S (reg w)
     \<and> self_lock (rpc w') = self_lock (rpc w) \<and> self_url (rpc w') = self_url (rpc w)"
  by (auto simp add: call_def Let_def world_ops split: if_splits reply.splits sum.splits)

lemma call_free:
  "call m p e w = (r, w') \<Longrightarrow> \<not> self_lock (rpc w) \<Longrightarrow>
     r = outcome (reply e)
     \<and> self_id (rpc w') = self_id (rpc w) + 1
     \<and> self_rpc_counter (rpc w') = self_rpc_counter (rpc w) + 1
     \<and> RPC_REQ (reg w') = (RPC_REQ (reg w))(m := RPC_REQ (reg w) m + 1)"
  by (auto simp add: call_def Let_def world_ops outcome_def split: if_splits reply.splits sum.splits)

text \<open>
  The number of latency observations one \<open>call\<close> adds for its method: one when it returns
  and when the post itself raises, two when the failure comes after the response.
\<close>

lemma call_observations:
  "\<not> self_lock (rpc w) \<Longrightarrow>
     length (RPC_LAT (reg (snd (call m p e w))) m) =
       length (RPC_LAT (reg w) m)
         + (case reply e of
              PostRaised \<Rightarrow> 1
            | Responded ok data \<Rightarrow> (case after_response ok data of Inr v \<Rightarrow> 1 | Inl err \<Rightarrow> 2))"
  by (auto simp add: call_def Let_def world_ops split: reply.splits sum.splits)


lemma call_posts:
  "call m p e w = (r, w') \<Longrightarrow> \<not> self_lock (rpc w) \<Longrightarrow>
     Post (self_url (rpc w)) \<lparr>p_method = m, p_params = p, p_id = self_id (rpc w) + 1\<rparr>
       \<in> set (effects w')"
  by (auto simp add: call_def Let_def world_ops split: if_splits reply.splits sum.splits)

text \<open>
  C1: every invocation of \<open>call\<close> should record exactly one latency observation for its
  method and add one to the method's request counter. On a fresh transport, a call of
  \<open>eth_accounts\<close> that is answered with a JSON-RPC error raises \<open>RuntimeError\<close>, adds one
  to the request counter, and records two observations: the one after the post and the one
  of the exception handler.
\<close>

theorem call_rpc_error_observed_twice:
  "fst (call ''eth_accounts'' (JList []) rpc_error_env (world_init ''http://geth-devnet:8545''))
     = Raised (RuntimeError (JDict [(''code'', JInt (- 32601)), (''message'', JStr ''method not found'')]))
   \<and> RPC_LAT (reg (snd (call ''eth_accounts'' (JList []) rpc_error_env
        (world_init ''http://geth-devnet:8545'')))) ''eth_accounts'' = [1, 2]
   \<and> RPC_REQ (reg (snd (call ''eth_accounts'' (JList []) rpc_error_env
        (world_init ''http://geth-devnet:8545'')))) ''eth_accounts'' = 1"
  by (simp add: call_def Let_def world_ops rpc_error_env_def world_init_def Rpc_init_def
      registry_init_def after_response_def extract_result_def)

section \<open>Properties of the sampler\<close>

lemma sampler_head_frame:
  "sampler_head e1 e2 s w = (r, w') \<Longrightarrow>
     ACH_TPS (reg w') = ACH_TPS (reg w) \<and> FAIL_RT (reg w') = FAIL_RT (reg w)
     \<and> RPS (reg w') = RPS (reg w)"
  by (auto simp add: sampler_head_def MGAS_S_set_def emit_def
      split: prod.splits result.splits sum.splits if_splits dest!: call_frame)

lemma sampler_head_frame_snd:
  "ACH_TPS (reg (snd (sampler_head e1 e2 s w))) = ACH_TPS (reg w)
   \<and> FAIL_RT (reg (snd (sampler_head e1 e2 s w))) = FAIL_RT (reg w)
   \<and> RPS (reg (snd (sampler_head e1 e2 s w))) = RPS (reg w)"
  using sampler_head_frame [of e1 e2 s w "fst (sampler_head e1 e2 s w)" "snd (sampler_head e1 e2 s w)"]
  by simp

text \<open>
  C3: in a window of length \<open>W > 0\<close>, with \<open>ok\<Delta>\<close> and \<open>err\<Delta>\<close> the increases of
  \<open>TX_OK\<close> and \<open>TX_ERR\<close> since the previous snapshot, the sampler sets the achieved-TPS
  gauge to \<open>ok\<Delta> / W\<close> and the failure-rate gauge to \<open>err\<Delta> / (ok\<Delta> + err\<Delta>)\<close> when that
  sum is positive and to 0 otherwise, whatever happens to the rest of the window.
\<close>

theorem sampler_window_rates:
  assumes "0 < W"
  shows "ACH_TPS (reg (snd (sampler_window W e1 e2 s w))) = (TX_OK (reg w) - last_ok s) / W
       \<and> FAIL_RT (reg (snd (sampler_window W e1 e2 s w))) =
           (if 0 < (TX_OK (reg w) - last_ok s) + (TX_ERR (reg w) - last_err s)
            then (TX_ERR (reg w) - last_err s)
                   / ((TX_OK (reg w) - last_ok s) + (TX_ERR (reg w) - last_err s))
            else 0)"
  using assms
  by (simp add: sampler_window_def sampler_rates_def Let_def drain_rpc_counter_def
      sampler_head_frame_snd world_ops)

lemmas hex_eval = int16_def unsigned16_def strip_0x_def hex_val_def field16_def subscript_def
  int16_json_def

lemma outcome_result_env: "outcome (reply (result_env v)) = Returned v"
  by (simp add: outcome_def result_env_def after_response_def extract_result_def)

lemma sampler_rates_ok:
  "W \<noteq> 0 \<Longrightarrow>
   sampler_rates W s w =
     (Returned (s\<lparr>last_ok := TX_OK (reg w), last_err := TX_ERR (reg w)\<rparr>),
      snd (sampler_rates W s w))
   \<and> self_lock (rpc (snd (sampler_rates W s w))) = self_lock (rpc w)
   \<and> MGAS_S (reg (snd (sampler_rates W s w))) = MGAS_S (reg w)
   \<and> RPS (reg (snd (sampler_rates W s w))) = real_of_int (self_rpc_counter (rpc w)) / W
   \<and> self_rpc_counter (rpc (snd (sampler_rates W s w))) = 0"
  by (simp add: sampler_rates_def Let_def drain_rpc_counter_def world_ops)

lemma call_returned:
  assumes "\<not> self_lock (rpc w)" and "outcome (reply e) = Returned v"
  shows "call m p e w = (Returned v, snd (call m p e w))"
  using call_free [of m p e w "fst (call m p e w)" "snd (call m p e w)"] assms
  by (simp add: prod_eq_iff)

lemma call_snd_frame:
  "MGAS_S (reg (snd (call m p e w))) = MGAS_S (reg w)
   \<and> self_lock (rpc (snd (call m p e w))) = self_lock (rpc w)"
  using call_frame [of m p e w "fst (call m p e w)" "snd (call m p e w)"] by simp

lemma sampler_head_new_block:
  assumes "\<not> self_lock (rpc w)"
    and "outcome (reply e1) = Returned blk"
    and "field16 blk ''number'' = Inr num" and "last_num s < num"
    and "subscript blk ''parentHash'' = Inr ph"
    and "outcome (reply e2) = Returned parent"
    and "field16 blk ''timestamp'' = Inr ts"
    and "field16 parent ''timestamp'' = Inr pts"
    and "field16 blk ''gasUsed'' = Inr gas"
  shows "fst (sampler_head e1 e2 s w) =
           Returned (s\<lparr>last_mgas := (real_of_int gas / real_of_int (max (ts - pts) 1)) / 1000000,
                       last_num := num\<rparr>)
         \<and> MGAS_S (reg (snd (sampler_head e1 e2 s w))) =
             (real_of_int gas / real_of_int (max (ts - pts) 1)) / 1000000"
proof -
  let ?c1 = "call ''eth_getBlockByNumber'' latest_params e1 w"
  have c1: "?c1 = (Returned blk, snd ?c1)"
    using assms(1,2) by (rule call_returned)
  have free1: "\<not> self_lock (rpc (snd ?c1))"
    using assms(1) call_snd_frame [of "''eth_getBlockByNumber''" latest_params e1 w] by simp
  let ?c2 = "call ''eth_getBlockByHash'' (JList [ph, JBool False]) e2 (snd ?c1)"
  have c2: "?c2 = (Returned parent, snd ?c2)"
    using free1 assms(6) by (rule call_returned)
  have bm: "block_mgas blk parent = Inr ((real_of_int gas / real_of_int (max (ts - pts) 1)) / 1000000)"
    using assms(7,8,9) by (simp add: block_mgas_def Let_def)
  have "sampler_head e1 e2 s w =
          (Returned (s\<lparr>last_mgas := (real_of_int gas / real_of_int (max (ts - pts) 1)) / 1000000,
                      last_num := num\<rparr>),
           MGAS_S_set ((real_of_int gas / real_of_int (max (ts - pts) 1)) / 1000000) (snd ?c2))"
    unfolding sampler_head_def
    using assms(3,4,5) bm by (subst c1, simp, subst c2, simp)
  then show ?thesis by (simp add: MGAS_S_set_def emit_def)
qed

lemma sampler_head_no_new_block:
  assumes "\<not> self_lock (rpc w)"
    and "outcome (reply e1) = Returned blk"
    and "field16 blk ''number'' = Inr num" and "num \<le> last_num s"
  shows "fst (sampler_head e1 e2 s w) = Returned s
         \<and> MGAS_S (reg (snd (sampler_head e1 e2 s w))) = last_mgas s
         \<and> Set_MGAS_S (last_mgas s) \<in> set (effects (snd (sampler_head e1 e2 s w)))"
proof -
  let ?c1 = "call ''eth_getBlockByNumber'' latest_params e1 w"
  have c1: "?c1 = (Returned blk, snd ?c1)"
    using assms(1,2) by (rule call_returned)
  have "sampler_head e1 e2 s w = (Returned s, MGAS_S_set (last_mgas s) (snd ?c1))"
    unfolding sampler_head_def using assms(3,4) by (subst c1, simp)
  then show ?thesis by (simp add: MGAS_S_set_def emit_def)
qed

lemma sampler_window_unfold:
  "W \<noteq> 0 \<Longrightarrow>
   sampler_window W e1 e2 s w =
     sampler_head e1 e2 (s\<lparr>last_ok := TX_OK (reg w), last_err := TX_ERR (reg w)\<rparr>)
       (snd (sampler_rates W s w))"
  by (simp add: sampler_window_def sampler_rates_def Let_def drain_rpc_counter_def)

theorem sampler_window_rates_witness:
  "(0::real) < 5
   \<and> ACH_TPS (reg (snd (sampler_window 5
        (result_env (block_json ''0x1'' ''0x64'' ''0x0'')) rpc_error_env
        \<lparr>last_ok = 20, last_err = 5, last_num = 1, last_mgas = 0\<rparr>
        ((world_init ''u'')\<lparr>reg := registry_init\<lparr>TX_OK := 45, TX_ERR := 10\<rparr>\<rparr>)))) = 5
   \<and> FAIL_RT (reg (snd (sampler_window 5
        (result_env (block_json ''0x1'' ''0x64'' ''0x0'')) rpc_error_env
        \<lparr>last_ok = 20, last_err = 5, last_num = 1, last_mgas = 0\<rparr>
        ((world_init ''u'')\<lparr>reg := registry_init\<lparr>TX_OK := 45, TX_ERR := 10\<rparr>\<rparr>)))) = 5 / 30
   \<and> FAIL_RT (reg (snd (sampler_window 5
        (result_env (block_json ''0x1'' ''0x64'' ''0x0'')) rpc_error_env
        \<lparr>last_ok = 45, last_err = 10, last_num = 1, last_mgas = 0\<rparr>
        ((world_init ''u'')\<lparr>reg := registry_init\<lparr>TX_OK := 45, TX_ERR := 10\<rparr>\<rparr>)))) = 0"
  using sampler_window_rates [of 5 "result_env (block_json ''0x1'' ''0x64'' ''0x0'')" rpc_error_env
      "\<lparr>last_ok = 20, last_err = 5, last_num = 1, last_mgas = 0\<rparr>"
      "(world_init ''u'')\<lparr>reg := registry_init\<lparr>TX_OK := 45, TX_ERR := 10\<rparr>\<rparr>"]
    sampler_window_rates [of 5 "result_env (block_json ''0x1'' ''0x64'' ''0x0'')" rpc_error_env
      "\<lparr>last_ok = 45, last_err = 10, last_num = 1, last_mgas = 0\<rparr>"
      "(world_init ''u'')\<lparr>reg := registry_init\<lparr>TX_OK := 45, TX_ERR := 10\<rparr>\<rparr>"]
  by simp

text \<open>
  C5: in a window in which the head's block number exceeds the recorded one and the
  parent is fetched, the sampler sets the MegaGas/second gauge to
  \<open>(gasUsed / max (timestamp - parent timestamp, 1)) / 10^6\<close>, records the value and the new
  block number, and the divisor is at least 1.
\<close>

theorem sampler_window_new_block:
  assumes "W \<noteq> 0" and "\<not> self_lock (rpc w)"
    and "outcome (reply e1) = Returned blk"
    and "field16 blk ''number'' = Inr num" and "last_num s < num"
    and "subscript blk ''parentHash'' = Inr ph"
    and "outcome (reply e2) = Returned parent"
    and "field16 blk ''timestamp'' = Inr ts"
    and "field16 parent ''timestamp'' = Inr pts"
    and "field16 blk ''gasUsed'' = Inr gas"
  shows "MGAS_S (reg (snd (sampler_window W e1 e2 s w))) =
           (real_of_int gas / real_of_int (max (ts - pts) 1)) / 10 ^ 6
         \<and> fst (sampler_window W e1 e2 s w) =
             Returned (s\<lparr>last_ok := TX_OK (reg w), last_err := TX_ERR (reg w),
                         last_mgas := (real_of_int gas / real_of_int (max (ts - pts) 1)) / 10 ^ 6,
                         last_num := num\<rparr>)
         \<and> 1 \<le> max (ts - pts) 1"
proof -
  let ?s1 = "s\<lparr>last_ok := TX_OK (reg w), last_err := TX_ERR (reg w)\<rparr>"
  let ?w1 = "snd (sampler_rates W s w)"
  have free: "\<not> self_lock (rpc ?w1)"
    using sampler_rates_ok [OF assms(1), of s w] assms(2) by simp
  have num: "last_num ?s1 < num" using assms(5) by simp
  from sampler_head_new_block [OF free assms(3) assms(4) num assms(6) assms(7) assms(8) assms(9) assms(10)]
  show ?thesis by (simp add: sampler_window_unfold [OF assms(1)])
qed

theorem sampler_window_new_block_witness:
  "(5::real) \<noteq> 0 \<and> \<not> self_lock (rpc (world_init ''u''))
   \<and> outcome (reply (result_env (block_json ''0x2'' ''0x70'' ''0xe4e1c0'')))
       = Returned (block_json ''0x2'' ''0x70'' ''0xe4e1c0'')
   \<and> field16 (block_json ''0x2'' ''0x70'' ''0xe4e1c0'') ''number'' = Inr 2
   \<and> field16 (block_json ''0x2'' ''0x70'' ''0xe4e1c0'') ''timestamp'' = Inr 112
   \<and> field16 (block_json ''0x2'' ''0x70'' ''0xe4e1c0'') ''gasUsed'' = Inr 15000000
   \<and> field16 (block_json ''0x1'' ''0x64'' ''0x0'') ''timestamp'' = Inr 100
   \<and> MGAS_S (reg (snd (sampler_window 5
        (result_env (block_json ''0x2'' ''0x70'' ''0xe4e1c0''))
        (result_env (block_json ''0x1'' ''0x64'' ''0x0''))
        \<lparr>last_ok = 0, last_err = 0, last_num = 1, last_mgas = 0\<rparr>
        (world_init ''u'')))) = 1.25"
proof -
  let ?blk = "block_json ''0x2'' ''0x70'' ''0xe4e1c0''"
  let ?par = "block_json ''0x1'' ''0x64'' ''0x0''"
  let ?s = "\<lparr>last_ok = 0, last_err = 0, last_num = 1, last_mgas = 0\<rparr>"
  have h1: "(5::real) \<noteq> 0" by simp
  have h2: "\<not> self_lock (rpc (world_init ''u''))" by (simp add: world_init_def Rpc_init_def)
  have h3: "outcome (reply (result_env ?blk)) = Returned ?blk" by (rule outcome_result_env)
  have h4: "field16 ?blk ''number'' = Inr 2" by (simp add: block_json_def hex_eval)
  have h5: "last_num ?s < 2" by simp
  have h6: "subscript ?blk ''parentHash'' = Inr (JStr ''0xabc'')"
    by (simp add: block_json_def subscript_def)
  have h7: "outcome (reply (result_env ?par)) = Returned ?par" by (rule outcome_result_env)
  have h8: "field16 ?blk ''timestamp'' = Inr 112" by (simp add: block_json_def hex_eval)
  have h9: "field16 ?par ''timestamp'' = Inr 100" by (simp add: block_json_def hex_eval)
  have h10: "field16 ?blk ''gasUsed'' = Inr 15000000" by (simp add: block_json_def hex_eval)
  from sampler_window_new_block [OF h1 h2 h3 h4 h5 h6 h7 h8 h9 h10]
  show ?thesis using h2 h3 h4 h8 h9 h10 by simp
qed

section \<open>Properties of concurrent callers\<close>

lemma sum_list_map_update:
  fixes f :: "'a \<Rightarrow> 'b::comm_monoid_add"
  shows "i < length xs \<Longrightarrow> sum_list (map f (xs[i := v])) + f (xs ! i) = sum_list (map f xs) + f v"
proof (induction xs arbitrary: i)
  case Nil
  then show ?case by simp
next
  case (Cons x xs)
  show ?case
  proof (cases i)
    case 0
    then show ?thesis by (simp add: ac_simps)
  next
    case (Suc j)
    with Cons.prems have "j < length xs" by simp
    from Cons.IH [OF this] show ?thesis using Suc by (simp add: ac_simps)
  qed
qed

lemma mset_held_rids: "mset (held_rids ps) = sum_list (map (\<lambda>p. mset (rid_of p)) ps)"
  by (induction ps) (simp_all add: held_rids_def)

lemma held_rids_update:
  "i < length ps \<Longrightarrow>
     mset (held_rids (ps[i := v])) + mset (rid_of (ps ! i)) = mset (held_rids ps) + mset (rid_of v)"
  using sum_list_map_update [of i ps "\<lambda>p. mset (rid_of p)" v] by (simp add: mset_held_rids)

lemma is_bumped_le_in_lock: "sum_list (map is_bumped ps) \<le> sum_list (map in_lock ps)"
proof (rule sum_list_mono)
  fix p show "is_bumped p \<le> in_lock p" by (cases p) simp_all
qed

lemma upto_snoc: "[1..int (Suc n)] = [1..int n] @ [int n + 1]"
  using upto_rec2 [of 1 "int (Suc n)"] by simp

lemma loop_inv_init: "loop_inv (loop_init url n)"
  by (simp add: loop_inv_def loop_init_def Rpc_init_def calls_counted_def held_rids_def
      sum_list_replicate)

lemma drain_step_inv: "loop_inv s \<Longrightarrow> loop_inv (drain_step s)"
  by (simp add: loop_inv_def drain_step_def drain_rpc_counter_def Let_def calls_counted_def)

lemma task_step_inv:
  assumes inv: "loop_inv s"
  shows "loop_inv (task_step i s)"
proof (cases "length (tasks s) \<le> i")
  case True
  then show ?thesis using inv by (simp add: task_step_def)
next
  case False
  then have i: "i < length (tasks s)" by simp
  define p where "p = tasks s ! i"
  note L = sum_list_map_update [OF i, of in_lock, folded p_def]
  note B = sum_list_map_update [OF i, of is_bumped, folded p_def]
  note C = sum_list_map_update [OF i, of is_counted, folded p_def]
  note H = held_rids_update [OF i, folded p_def]
  have pl: "in_lock p \<le> sum_list (map in_lock (tasks s))"
    using elem_le_sum_list [of i "map in_lock (tasks s)"] i by (simp add: p_def)
  have pb: "is_bumped p \<le> sum_list (map is_bumped (tasks s))"
    using elem_le_sum_list [of i "map is_bumped (tasks s)"] i by (simp add: p_def)
  note bl = is_bumped_le_in_lock [of "tasks s"]
  show ?thesis
  proof (cases p)
    case At_lock
    then show ?thesis
      using inv i L [of In_lock] B [of In_lock] C [of In_lock] H [of In_lock]
      by (auto simp add: task_step_def loop_inv_def p_def [symmetric] lock_acquire_def
          calls_counted_def)
  next
    case In_lock
    then show ?thesis
      using inv i L [of Bumped] B [of Bumped] C [of Bumped] H [of Bumped]
      by (auto simp add: task_step_def loop_inv_def p_def [symmetric] bump_id_def
          calls_counted_def)
  next
    case Bumped
    let ?v = "Has_rid (self_id (shared s))"
    from Bumped have "sum_list (map is_bumped (tasks s)) = 1"
      using pb bl inv by (simp add: loop_inv_def split: if_splits)
    then show ?thesis
      using Bumped inv i L [of ?v] B [of ?v] C [of ?v] H [of ?v] upto_snoc [of "length (assigned s)"]
      by (auto simp add: task_step_def loop_inv_def p_def [symmetric] calls_counted_def)
  next
    case (Has_rid rid)
    let ?v = "Unlocked rid"
    from Has_rid have "sum_list (map in_lock (tasks s)) = 1 \<and> self_lock (shared s)"
      using pl inv by (simp add: loop_inv_def split: if_splits)
    then show ?thesis
      using Has_rid inv i L [of ?v] B [of ?v] C [of ?v] H [of ?v]
      by (auto simp add: task_step_def loop_inv_def p_def [symmetric] lock_release_def
          calls_counted_def)
  next
    case (Unlocked rid)
    let ?v = "Counted rid"
    show ?thesis
      using Unlocked inv i L [of ?v] B [of ?v] C [of ?v] H [of ?v]
      by (auto simp add: task_step_def loop_inv_def p_def [symmetric] bump_rpc_counter_def
          calls_counted_def)
  next
    case (Counted rid)
    then show ?thesis using inv i by (simp add: task_step_def p_def [symmetric])
  qed
qed

lemma run_schedule_inv: "loop_inv s \<Longrightarrow> loop_inv (run_schedule sched s)"
proof (induction sched arbitrary: s)
  case Nil
  then show ?case by simp
next
  case (Cons t ts)
  then show ?case by (cases t) (simp_all add: task_step_inv drain_step_inv)
qed

lemma run_schedule_reachable: "loop_inv (run_schedule sched (loop_init url n))"
  by (rule run_schedule_inv) (rule loop_inv_init)

lemma distinct_upto_int: "distinct [1..int k]"
  by simp

text \<open>
  C2: whatever the schedule and the number of callers, the request ids assigned on one
  transport are, in the order of assignment, 1, 2, ..., N for the N assignments made so
  far: each is one greater than the one before, without duplicates or gaps. The ids the
  callers hold are exactly those, so no two requests in flight share an id.
\<close>

theorem request_ids_consecutive:
  "assigned (run_schedule sched (loop_init url n)) =
     [1..int (length (assigned (run_schedule sched (loop_init url n))))]
   \<and> mset (held_rids (tasks (run_schedule sched (loop_init url n)))) =
       mset (assigned (run_schedule sched (loop_init url n)))
   \<and> distinct (held_rids (tasks (run_schedule sched (loop_init url n))))"
proof -
  let ?s = "run_schedule sched (loop_init url n)"
  have inv: "loop_inv ?s" by (rule run_schedule_reachable)
  then have a: "assigned ?s = [1..int (length (assigned ?s))]"
    and m: "mset (held_rids (tasks ?s)) = mset (assigned ?s)"
    by (simp_all add: loop_inv_def)
  have "distinct (assigned ?s)" by (subst a) simp
  with m have "distinct (held_rids (tasks ?s))"
    using mset_eq_imp_distinct_iff by blast
  with a m show ?thesis by simp
qed

text \<open>
  Two callers: the second finds the lock held twice and waits; they end with the ids 1
  and 2.
\<close>

lemma run_schedule_example:
  "tasks (run_schedule [Run 0, Run 1, Run 0, Run 0, Run 1, Run 0, Run 1, Run 1, Run 1, Run 0, Run 1, Run 1]
     (loop_init ''u'' (Suc (Suc 0)))) = [Counted 1, Counted 2]
   \<and> assigned (run_schedule [Run 0, Run 1, Run 0, Run 0, Run 1, Run 0, Run 1, Run 1, Run 1, Run 0, Run 1, Run 1]
     (loop_init ''u'' (Suc (Suc 0)))) = [1, 2]"
  by (simp add: task_step_def loop_init_def Rpc_init_def lock_acquire_def lock_release_def
      bump_id_def bump_rpc_counter_def)

section \<open>The sticky gauge and the drained counter\<close>

lemma sampler_head_republishes:
  assumes "\<not> self_lock (rpc w)"
    and "outcome (reply e1) = Returned blk"
    and "field16 blk ''number'' = Inr num" and "num \<le> last_num s"
  shows "last (effects (snd (sampler_head e1 e2 s w))) = Set_MGAS_S (last_mgas s)"
proof -
  let ?c1 = "call ''eth_getBlockByNumber'' latest_params e1 w"
  have c1: "?c1 = (Returned blk, snd ?c1)"
    using assms(1,2) by (rule call_returned)
  have "sampler_head e1 e2 s w = (Returned s, MGAS_S_set (last_mgas s) (snd ?c1))"
    unfolding sampler_head_def using assms(3,4) by (subst c1, simp)
  then show ?thesis by (simp add: MGAS_S_set_def emit_def)
qed

text \<open>
  After the priming and after every completed window the gauge holds \<open>last_mgas\<close>; no
  other code writes \<open>MGAS_S\<close>, so it still does when the next window starts.
\<close>

lemma sampler_head_publishes:
  "sampler_head e1 e2 s w = (Returned s', w') \<Longrightarrow> MGAS_S (reg w') = last_mgas s'"
  by (auto simp add: sampler_head_def MGAS_S_set_def emit_def
      split: prod.splits result.splits sum.splits if_splits)

lemma sampler_window_publishes:
  "sampler_window W e1 e2 s w = (Returned s', w') \<Longrightarrow> MGAS_S (reg w') = last_mgas s'"
  by (auto simp add: sampler_window_def sampler_rates_def Let_def drain_rpc_counter_def
      split: prod.splits result.splits if_splits dest: sampler_head_publishes)

lemma sampler_prime_baseline:
  "sampler_prime e w = (Returned s, w') \<Longrightarrow>
     last_mgas s = 0 \<and> MGAS_S (reg w') = MGAS_S (reg w)
     \<and> last_ok s = TX_OK (reg w) \<and> last_err s = TX_ERR (reg w)"
  by (auto simp add: sampler_prime_def Let_def
      split: prod.splits result.splits sum.splits dest!: call_frame)

text \<open>
  C6: in a window in which the head's block number does not exceed the recorded one, the
  sampler writes the previously computed value \<open>last_mgas\<close> to the MegaGas/second gauge
  again, as the last thing it does; the recorded block number and \<open>last_mgas\<close> stay as they
  were, and a gauge that held \<open>last_mgas\<close> before the window holds the same value after it.
\<close>

theorem sampler_window_no_new_block:
  assumes "W \<noteq> 0" and "\<not> self_lock (rpc w)"
    and "outcome (reply e1) = Returned blk"
    and "field16 blk ''number'' = Inr num" and "num \<le> last_num s"
  shows "MGAS_S (reg (snd (sampler_window W e1 e2 s w))) = last_mgas s
         \<and> last (effects (snd (sampler_window W e1 e2 s w))) = Set_MGAS_S (last_mgas s)
         \<and> fst (sampler_window W e1 e2 s w) =
             Returned (s\<lparr>last_ok := TX_OK (reg w), last_err := TX_ERR (reg w)\<rparr>)
         \<and> (MGAS_S (reg w) = last_mgas s \<longrightarrow>
              MGAS_S (reg (snd (sampler_window W e1 e2 s w))) = MGAS_S (reg w))"
proof -
  let ?s1 = "s\<lparr>last_ok := TX_OK (reg w), last_err := TX_ERR (reg w)\<rparr>"
  let ?w1 = "snd (sampler_rates W s w)"
  have free: "\<not> self_lock (rpc ?w1)"
    using sampler_rates_ok [OF assms(1), of s w] assms(2) by simp
  have num: "num \<le> last_num ?s1" using assms(5) by simp
  from sampler_head_no_new_block [OF free assms(3) assms(4) num, of e2]
    sampler_head_republishes [OF free assms(3) assms(4) num, of e2]
  show ?thesis by (simp add: sampler_window_unfold [OF assms(1)])
qed

theorem sampler_window_no_new_block_witness:
  "(5::real) \<noteq> 0
   \<and> \<not> self_lock (rpc ((world_init ''u'')\<lparr>reg := registry_init\<lparr>MGAS_S := 1.25\<rparr>\<rparr>))
   \<and> outcome (reply (result_env (block_json ''0x2'' ''0x70'' ''0xe4e1c0'')))
       = Returned (block_json ''0x2'' ''0x70'' ''0xe4e1c0'')
   \<and> field16 (block_json ''0x2'' ''0x70'' ''0xe4e1c0'') ''number'' = Inr 2
   \<and> (2::int) \<le> last_num \<lparr>last_ok = 0, last_err = 0, last_num = 2, last_mgas = 1.25\<rparr>
   \<and> MGAS_S (reg ((world_init ''u'')\<lparr>reg := registry_init\<lparr>MGAS_S := 1.25\<rparr>\<rparr>)) = 1.25
   \<and> MGAS_S (reg (snd (sampler_window 5
        (result_env (block_json ''0x2'' ''0x70'' ''0xe4e1c0'')) rpc_error_env
        \<lparr>last_ok = 0, last_err = 0, last_num = 2, last_mgas = 1.25\<rparr>
        ((world_init ''u'')\<lparr>reg := registry_init\<lparr>MGAS_S := 1.25\<rparr>\<rparr>)))) = 1.25
   \<and> fst (sampler_window 5
        (result_env (block_json ''0x2'' ''0x70'' ''0xe4e1c0'')) rpc_error_env
        \<lparr>last_ok = 0, last_err = 0, last_num = 2, last_mgas = 1.25\<rparr>
        ((world_init ''u'')\<lparr>reg := registry_init\<lparr>MGAS_S := 1.25\<rparr>\<rparr>))
       = Returned \<lparr>last_ok = 0, last_err = 0, last_num = 2, last_mgas = 1.25\<rparr>"
proof -
  let ?blk = "block_json ''0x2'' ''0x70'' ''0xe4e1c0''"
  let ?s = "\<lparr>last_ok = 0, last_err = 0, last_num = 2, last_mgas = 1.25\<rparr>"
  let ?w = "(world_init ''u'')\<lparr>reg := registry_init\<lparr>MGAS_S := 1.25\<rparr>\<rparr>"
  have h1: "(5::real) \<noteq> 0" by simp
  have h2: "\<not> self_lock (rpc ?w)" by (simp add: world_init_def Rpc_init_def)
  have h3: "outcome (reply (result_env ?blk)) = Returned ?blk" by (rule outcome_result_env)
  have h4: "field16 ?blk ''number'' = Inr 2" by (simp add: block_json_def hex_eval)
  have h5: "(2::int) \<le> last_num ?s" by simp
  from sampler_window_no_new_block [OF h1 h2 h3 h4 h5, of rpc_error_env]
  show ?thesis using h2 h3 h4 by (simp add: registry_init_def world_init_def)
qed

lemma run_schedule_append:
  "run_schedule (xs @ ys) s = run_schedule ys (run_schedule xs s)"
  by (induction xs arbitrary: s) simp_all

text \<open>
  C9: \<open>drain_rpc_counter\<close> returns \<open>_rpc_counter\<close> and leaves it 0. In every interleaving
  of callers and drains, \<open>_rpc_counter\<close> is the number of calls counted so far less those
  already drained, so a drain returns exactly the calls made since the previous drain and
  no call is lost or counted twice. In a window of length \<open>W \<noteq> 0\<close> the sampler sets the
  RPS gauge to the drained value divided by \<open>W\<close>.
\<close>

theorem drain_counts_every_call:
  assumes "W \<noteq> 0"
  shows "fst (drain_rpc_counter r) = self_rpc_counter r
         \<and> self_rpc_counter (snd (drain_rpc_counter r)) = 0
         \<and> self_rpc_counter (shared (run_schedule sched (loop_init url n))) =
             calls_counted (run_schedule sched (loop_init url n))
               - sum_list (drained (run_schedule sched (loop_init url n)))
         \<and> drained (run_schedule (sched @ [Drain]) (loop_init url n)) =
             drained (run_schedule sched (loop_init url n))
               @ [calls_counted (run_schedule sched (loop_init url n))
                    - sum_list (drained (run_schedule sched (loop_init url n)))]
         \<and> self_rpc_counter (shared (run_schedule (sched @ [Drain]) (loop_init url n))) = 0
         \<and> RPS (reg (snd (sampler_window W e1 e2 st w))) =
             real_of_int (self_rpc_counter (rpc w)) / W"
proof -
  let ?s = "run_schedule sched (loop_init url n)"
  have inv: "loop_inv ?s" by (rule run_schedule_reachable)
  then have c: "sum_list (drained ?s) + self_rpc_counter (shared ?s) = calls_counted ?s"
    by (simp add: loop_inv_def)
  have app: "run_schedule (sched @ [Drain]) (loop_init url n) = drain_step ?s"
    by (simp add: run_schedule_append)
  have rps: "RPS (reg (snd (sampler_window W e1 e2 st w))) = real_of_int (self_rpc_counter (rpc w)) / W"
    using sampler_rates_ok [OF assms, of st w]
    by (simp add: sampler_window_unfold [OF assms] sampler_head_frame_snd)
  show ?thesis using c rps
    by (simp add: app drain_step_def drain_rpc_counter_def Let_def)
qed

theorem drain_counts_every_call_witness:
  "(5::real) \<noteq> 0
   \<and> RPS (reg (snd (sampler_window 5 rpc_error_env rpc_error_env
        \<lparr>last_ok = 0, last_err = 0, last_num = 2, last_mgas = 0\<rparr>
        ((world_init ''u'')\<lparr>rpc := (Rpc_init ''u'')\<lparr>self_rpc_counter := 300\<rparr>\<rparr>)))) = 60
   \<and> drained (run_schedule ([Run 0, Run 0, Run 0, Run 0, Run 0, Drain, Run 0] @ [Drain])
        (loop_init ''u'' (Suc 0))) = [1, 0]
   \<and> self_rpc_counter (shared (run_schedule ([Run 0, Run 0, Run 0, Run 0, Run 0, Drain, Run 0] @ [Drain])
        (loop_init ''u'' (Suc 0)))) = 0"
  using drain_counts_every_call [of 5 "Rpc_init ''u''"
      "[Run 0, Run 0, Run 0, Run 0, Run 0, Drain, Run 0]" "''u''" "Suc 0"
      rpc_error_env rpc_error_env "\<lparr>last_ok = 0, last_err = 0, last_num = 2, last_mgas = 0\<rparr>"
      "(world_init ''u'')\<lparr>rpc := (Rpc_init ''u'')\<lparr>self_rpc_counter := 300\<rparr>\<rparr>"]
  by (simp add: task_step_def drain_step_def drain_rpc_counter_def loop_init_def Rpc_init_def
      lock_acquire_def lock_release_def bump_id_def bump_rpc_counter_def calls_counted_def)

section \<open>Properties of \<open>hex\<close> and of the transaction worker\<close>

lemma hex_val_digit: "k < 16 \<Longrightarrow> hex_val (''0123456789abcdef'' ! k) = Some k"
proof -
  assume "k < 16"
  then have "k \<in> {0, 1, 2, 3, 4, 5, 6, 7, 8, 9, 10, 11, 12, 13, 14, 15}" by simp presburger
  then show ?thesis by (auto simp add: hex_val_def)
qed

lemma hex_val_hex_digit: "hex_val (hex_digit d) = Some (d mod 16)"
  by (simp add: hex_digit_def hex_val_digit)

lemma hex_digits_val_append:
  "hex_digits_val acc (xs @ ys) =
     (case hex_digits_val acc xs of None \<Rightarrow> None | Some a \<Rightarrow> hex_digits_val a ys)"
  by (induction xs arbitrary: acc) (simp_all split: option.splits)

lemma hex_digits_val_hex_nat: "hex_digits_val 0 (hex_nat n) = Some n"
proof (induction n rule: hex_nat.induct)
  case (1 n)
  show ?case
  proof (cases "n < 16")
    case True
    then show ?thesis by (subst hex_nat.simps) (simp add: hex_val_hex_digit)
  next
    case False
    with 1 have "hex_digits_val 0 (hex_nat (n div 16)) = Some (n div 16)" by simp
    with False show ?thesis
      by (subst hex_nat.simps) (simp add: hex_digits_val_append hex_val_hex_digit)
  qed
qed

lemma hex_nat_nonempty: "hex_nat n \<noteq> []"
  by (subst hex_nat.simps) simp

lemma unsigned16_hex_nat: "unsigned16 (''0x'' @ hex_nat n) = Inr n"
  by (simp add: unsigned16_def strip_0x_def hex_nat_nonempty hex_digits_val_hex_nat)

text \<open>What \<open>hex\<close> writes, \<open>int(s, 16)\<close> reads back.\<close>

lemma int16_hex: "int16 (hex n) = Inr n"
  using unsigned16_hex_nat [of "nat n"] unsigned16_hex_nat [of "nat (- n)"]
  by (simp add: int16_def hex_def)








lemma send_tx_keeps_effects:
  assumes "send_tx_try sender to_addr v e1 e2 (TX_SENT_inc w) = (r, w1)"
  shows "set (effects w1) \<subseteq> set (effects (snd (send_tx sender to_addr v e1 e2 w)))"
  using assms by (cases r) (auto simp add: send_tx_def TX_ERR_inc_def emit_def)

text \<open>
  C7: when the fee estimation returns a value that decodes to \<open>e\<close>, \<open>send_tx\<close> posts, as
  the second request of the transport, an \<open>eth_sendTransaction\<close> whose only parameter
  carries \<open>maxPriorityFeePerGas = hex(max(e, 10^9))\<close>, \<open>maxFeePerGas = hex(2 max(e, 10^9))\<close>
  and \<open>gas = hex(21000)\<close>, and these strings read back as those numbers.
\<close>

theorem send_tx_fees:
  assumes "\<not> self_lock (rpc w)"
    and "outcome (reply e1) = Returned tip"
    and "tip_to_wei tip = Inr e"
  shows "Post (self_url (rpc w))
           \<lparr>p_method = ''eth_sendTransaction'', p_params = tx_params sender to_addr v e,
            p_id = self_id (rpc w) + 2\<rparr>
           \<in> set (effects (snd (send_tx sender to_addr v e1 e2 w)))
         \<and> tx_params sender to_addr v e =
             JList [JDict
               [(''from'', JStr sender),
                (''to'', JStr to_addr),
                (''value'', JStr (to_wei_hex v)),
                (''gas'', JStr (hex 21000)),
                (''maxPriorityFeePerGas'', JStr (hex (max e 1000000000))),
                (''maxFeePerGas'', JStr (hex (2 * max e 1000000000)))]]
         \<and> int16 (hex 21000) = Inr 21000
         \<and> int16 (hex (max e 1000000000)) = Inr (max e 1000000000)
         \<and> int16 (hex (2 * max e 1000000000)) = Inr (2 * max e 1000000000)"
proof -
  let ?w0 = "TX_SENT_inc w"
  have free0: "\<not> self_lock (rpc ?w0)" using assms(1) by (simp add: TX_SENT_inc_def emit_def)
  have same0: "self_url (rpc ?w0) = self_url (rpc w)" "self_id (rpc ?w0) = self_id (rpc w)"
    by (simp_all add: TX_SENT_inc_def emit_def)
  obtain w1 where c1: "call ''eth_maxPriorityFeePerGas'' (JList []) e1 ?w0 = (Returned tip, w1)"
    using call_returned [OF free0 assms(2)] by blast
  note f1 = call_frame [OF c1] call_free [OF c1 free0]
  have free1: "\<not> self_lock (rpc w1)" using f1 free0 by simp
  obtain r2 w2 where
    c2: "call ''eth_sendTransaction'' (tx_params sender to_addr v e) e2 w1 = (r2, w2)"
    by fastforce
  have "self_url (rpc w1) = self_url (rpc w)" and "self_id (rpc w1) + 1 = self_id (rpc w) + 2"
    using f1 same0 by simp_all
  with call_posts [OF c2 free1]
  have post: "Post (self_url (rpc w))
           \<lparr>p_method = ''eth_sendTransaction'', p_params = tx_params sender to_addr v e,
            p_id = self_id (rpc w) + 2\<rparr> \<in> set (effects w2)"
    by (simp only:)
  obtain r w3 where t: "send_tx_try sender to_addr v e1 e2 ?w0 = (r, w3)" by fastforce
  have "set (effects w2) \<subseteq> set (effects w3)"
    using t assms(3) by (cases r2) (auto simp add: send_tx_try_def c1 c2 TX_OK_inc_def emit_def)
  with post send_tx_keeps_effects [OF t] have
    "Post (self_url (rpc w))
           \<lparr>p_method = ''eth_sendTransaction'', p_params = tx_params sender to_addr v e,
            p_id = self_id (rpc w) + 2\<rparr>
           \<in> set (effects (snd (send_tx sender to_addr v e1 e2 w)))"
    by blast
  then show ?thesis by (simp add: tx_params_def Let_def int16_hex mult.commute)
qed

lemmas hex_out = hex_def hex_nat.simps hex_digit_def

theorem send_tx_fees_witness:
  "\<not> self_lock (rpc (world_init ''http://geth-devnet:8545''))
   \<and> outcome (reply (result_env (JStr ''0x1dcd6500''))) = Returned (JStr ''0x1dcd6500'')
   \<and> tip_to_wei (JStr ''0x1dcd6500'') = Inr 500000000
   \<and> Post ''http://geth-devnet:8545''
        \<lparr>p_method = ''eth_sendTransaction'',
         p_params = JList [JDict
           [(''from'', JStr ''0xaa''),
            (''to'', JStr ''0xbb''),
            (''value'', JStr ''0x5af3107a4000''),
            (''gas'', JStr ''0x5208''),
            (''maxPriorityFeePerGas'', JStr ''0x3b9aca00''),
            (''maxFeePerGas'', JStr ''0x77359400'')]],
         p_id = 2\<rparr>
        \<in> set (effects (snd (send_tx ''0xaa'' ''0xbb'' 0.0001 (result_env (JStr ''0x1dcd6500''))
              (result_env (JStr ''0xcc'')) (world_init ''http://geth-devnet:8545''))))
   \<and> int16 ''0x3b9aca00'' = Inr 1000000000 \<and> int16 ''0x77359400'' = Inr 2000000000
   \<and> int16 ''0x5208'' = Inr 21000"
proof -
  let ?w = "world_init ''http://geth-devnet:8545''"
  have h1: "\<not> self_lock (rpc ?w)" by (simp add: world_init_def Rpc_init_def)
  have h2: "outcome (reply (result_env (JStr ''0x1dcd6500''))) = Returned (JStr ''0x1dcd6500'')"
    by (rule outcome_result_env)
  have h3: "tip_to_wei (JStr ''0x1dcd6500'') = Inr 500000000"
    by (simp add: tip_to_wei_def hex_eval)
  have x1: "hex 21000 = ''0x5208''" by (simp add: hex_out)
  have x2: "hex 1000000000 = ''0x3b9aca00''" by (simp add: hex_out)
  have x3: "hex 2000000000 = ''0x77359400''" by (simp add: hex_out)
  have x4: "to_wei_hex (1 / 10000) = ''0x5af3107a4000''"
    by (simp add: to_wei_hex_def int_of_float_def hex_out)
  from send_tx_fees [OF h1 h2 h3, of "''0xaa''" "''0xbb''" "0.0001" "result_env (JStr ''0xcc'')"]
  show ?thesis using h1 h2 h3
    by (auto simp add: x1 x2 x3 x4 world_init_def Rpc_init_def)
qed


end
